theory Spec2Isabelle
  imports Main "HOL-Library.Word"
begin

section \<open>Python values\<close>

text \<open>
  A Python \<open>str\<close> is a sequence of code points: \<open>len\<close> and slicing count code points,
  not bytes. It is modelled as a list of code-point numbers; \<open>lit\<close> embeds the ASCII
  literals of the source.
\<close>

type_synonym pystr = "nat list"

definition lit :: "string \<Rightarrow> pystr" where
  "lit s = map of_char s"

text \<open>
  The values \<open>request.get_json()\<close> and \<open>response.json()\<close> produce. A Python float is an
  IEEE-754 binary64, kept as its 64 bits. A dict is an association list in insertion order,
  each key bound once; \<open>map_of\<close> reads it.
\<close>

datatype json =
    JNull
  | JBool bool
  | JInt int
  | JFloat "64 word"
  | JString pystr
  | JArray "json list"
  | JObject "(pystr \<times> json) list"

text \<open>Python truth value testing, as \<open>if not data\<close>, \<open>if not url\<close> and \<open>if v\<close> use it.
  The floats \<open>0.0\<close> and \<open>-0.0\<close> are false, every other float (NaN included) is true.\<close>

fun truthy :: "json \<Rightarrow> bool" where
  "truthy JNull = False"
| "truthy (JBool b) = b"
| "truthy (JInt i) = (i \<noteq> 0)"
| "truthy (JFloat f) = (f \<noteq> 0 \<and> f \<noteq> 0x8000000000000000)"
| "truthy (JString s) = (s \<noteq> [])"
| "truthy (JArray xs) = (xs \<noteq> [])"
| "truthy (JObject kvs) = (kvs \<noteq> [])"

fun type_name :: "json \<Rightarrow> string" where
  "type_name JNull = ''NoneType''"
| "type_name (JBool b) = ''bool''"
| "type_name (JInt i) = ''int''"
| "type_name (JFloat f) = ''float''"
| "type_name (JString s) = ''str''"
| "type_name (JArray xs) = ''list''"
| "type_name (JObject kvs) = ''dict''"

section \<open>Exceptions\<close>

text \<open>
  The exception classes that can reach the \<open>except\<close> clauses of \<open>proxy_api_request\<close>:
  the classes of \<open>requests.exceptions\<close> the clauses name, with their subclasses, the two
  classes the interpreter raises inside the function body, and \<open>OtherException\<close> for every
  other class derived from \<open>Exception\<close>. \<open>bases\<close> lists the direct base classes as
  \<open>requests/exceptions.py\<close> declares them (\<open>class SSLError(ConnectionError)\<close>,
  \<open>class ConnectTimeout(ConnectionError, Timeout)\<close>, \<open>class ReadTimeout(Timeout)\<close>,
  \<open>class ProxyError(ConnectionError)\<close>). Classes derived from \<open>BaseException\<close> only
  (\<open>KeyboardInterrupt\<close>, \<open>SystemExit\<close>) end the process and are not part of the model.
\<close>

datatype exn_class =
    Exception
  | RequestException
  | Timeout
  | ConnectTimeout
  | ReadTimeout
  | ConnectionError
  | SSLError
  | ProxyError
  | HTTPError
  | AttributeError
  | TypeError
  | OtherException

fun bases :: "exn_class \<Rightarrow> exn_class list" where
  "bases Exception = []"
| "bases RequestException = [Exception]"
| "bases Timeout = [RequestException]"
| "bases ConnectTimeout = [ConnectionError, Timeout]"
| "bases ReadTimeout = [Timeout]"
| "bases ConnectionError = [RequestException]"
| "bases SSLError = [ConnectionError]"
| "bases ProxyError = [ConnectionError]"
| "bases HTTPError = [RequestException]"
| "bases AttributeError = [Exception]"
| "bases TypeError = [Exception]"
| "bases OtherException = [Exception]"

text \<open>\<open>issubclass\<close>: the class itself or a base class, to any depth. The hierarchy above
  is three levels deep, so three steps reach every ancestor.\<close>

fun ancestors :: "nat \<Rightarrow> exn_class \<Rightarrow> exn_class list" where
  "ancestors 0 c = [c]"
| "ancestors (Suc n) c = c # concat (map (ancestors n) (bases c))"

definition issubclass :: "exn_class \<Rightarrow> exn_class \<Rightarrow> bool" where
  "issubclass c d = (d \<in> set (ancestors 3 c))"

datatype exn = Exn (cls: exn_class) (msg: pystr)

definition isinstance :: "exn \<Rightarrow> exn_class \<Rightarrow> bool" where
  "isinstance e d = issubclass (cls e) d"

text \<open>The exceptions the interpreter raises in the function body, with the message
  CPython 3 gives them. No property below depends on the wording.\<close>

definition no_attribute :: "json \<Rightarrow> string \<Rightarrow> exn" where
  "no_attribute v a =
     Exn AttributeError (lit ([CHR 0x27] @ type_name v @ [CHR 0x27] @ '' object has no attribute ''
                               @ [CHR 0x27] @ a @ [CHR 0x27]))"

definition no_len :: "json \<Rightarrow> exn" where
  "no_len v =
     Exn TypeError (lit (''object of type '' @ [CHR 0x27] @ type_name v @ [CHR 0x27] @ '' has no len()''))"

definition list_plus_str :: exn where
  "list_plus_str =
     Exn TypeError (lit (''can only concatenate list (not '' @ [CHR 0x22] @ ''str'' @ [CHR 0x22] @ '') to list''))"

definition dict_slice :: exn where
  "dict_slice = Exn TypeError (lit (''unhashable type: '' @ [CHR 0x27] @ ''slice'' @ [CHR 0x27]))"

section \<open>The request, the outbound call and the world around them\<close>

datatype http_method = POST | OPTIONS

text \<open>What the function reads of \<open>flask.request\<close>: the request method (the route admits POST and
  OPTIONS only) and what \<open>request.get_json()\<close> does: it returns the parsed body, or raises
  (werkzeug's \<open>BadRequest\<close> on a body that is not JSON, a class derived from
  \<open>Exception\<close>).\<close>

record request =
  request_method :: http_method
  get_json :: "exn + json"

text \<open>The arguments of the one \<open>requests.post\<close> call.\<close>

record outbound =
  url :: json
  headers :: "(pystr \<times> json) list"
  json_body :: json
  timeout :: nat
  verify :: bool

text \<open>What the function reads of a \<open>requests.Response\<close>. \<open>body_json\<close> is what
  \<open>response.json()\<close> returns, \<open>None\<close> when it raises \<open>json.JSONDecodeError\<close>.\<close>

record response =
  status_code :: int
  text_body :: pystr
  body_json :: "json option"
  resp_headers :: "(pystr \<times> pystr) list"

text \<open>
  The collaborators: \<open>post\<close> is \<open>requests.post\<close> (a response, or the exception it raises),
  \<open>now_iso\<close> is \<open>datetime.now().isoformat()\<close>, and \<open>py_str\<close> is Python's \<open>str()\<close> on values
  that are not strings, as the f-string of the Authorization header applies it.
\<close>

record world =
  post :: "outbound \<Rightarrow> exn + response"
  now_iso :: pystr
  py_str :: "json \<Rightarrow> pystr"

definition str_of :: "world \<Rightarrow> json \<Rightarrow> pystr" where
  "str_of w v = (case v of JString s \<Rightarrow> s | _ \<Rightarrow> py_str w v)"

text \<open>The log lines, by the call that writes them. A line built with \<open>json.dumps\<close> is
  kept as the value handed to \<open>json.dumps\<close>.\<close>

datatype log_record =
    Info_request_to json
  | Info_headers "(pystr \<times> json) list"
  | Info_body json
  | Info_response_status int
  | Error_message pystr
  | Error_traceback exn

text \<open>One run of the view function: the Flask return value (JSON body and HTTP status),
  the lines logged, and the outbound calls issued.\<close>

record run =
  reply :: "json \<times> int"
  logged :: "log_record list"
  calls :: "outbound list"

section \<open>The relay\<close>

text \<open>\<open>d.get(k, default)\<close> on a dict.\<close>

definition dget :: "(pystr \<times> json) list \<Rightarrow> string \<Rightarrow> json \<Rightarrow> json" where
  "dget d k dflt = (case map_of d (lit k) of None \<Rightarrow> dflt | Some v \<Rightarrow> v)"

text \<open>Lines 81 to 87: the five headers, before the empty ones are removed.\<close>

definition header_dict :: "world \<Rightarrow> (pystr \<times> json) list \<Rightarrow> (pystr \<times> json) list" where
  "header_dict w config =
     [(lit ''Content-Type'', dget config ''contentType'' (JString (lit ''application/json''))),
      (lit ''User-Agent'', dget config ''userAgent'' (JString (lit ''okhttp/4.11.0''))),
      (lit ''Accept-Encoding'', dget config ''acceptEncoding'' (JString (lit ''gzip,deflate,br''))),
      (lit ''x-api-key'', dget config ''apiKey'' (JString [])),
      (lit ''Authorization'',
         if truthy (dget config ''authToken'' JNull)
         then JString (lit ''Bearer '' @ str_of w (dget config ''authToken'' (JString [])))
         else JString [])]"

text \<open>Line 90: \<open>{k: v for k, v in headers.items() if v}\<close>.\<close>

definition remove_empty :: "(pystr \<times> json) list \<Rightarrow> (pystr \<times> json) list" where
  "remove_empty hs = filter (\<lambda>kv. truthy (snd kv)) hs"

text \<open>Line 93, one value: \<open>v[:20] + '...' if len(v) > 20 else v\<close>. \<open>len\<close> raises on a number
  or a boolean; a list of more than 20 elements cannot be added to a string, and a dict of
  more than 20 entries cannot be sliced.\<close>

fun shorten :: "json \<Rightarrow> exn + json" where
  "shorten (JString s) = Inr (JString (if length s > 20 then take 20 s @ lit ''...'' else s))"
| "shorten (JArray xs) = (if length xs > 20 then Inl list_plus_str else Inr (JArray xs))"
| "shorten (JObject kvs) = (if length kvs > 20 then Inl dict_slice else Inr (JObject kvs))"
| "shorten JNull = Inl (no_len JNull)"
| "shorten (JBool b) = Inl (no_len (JBool b))"
| "shorten (JInt i) = Inl (no_len (JInt i))"
| "shorten (JFloat f) = Inl (no_len (JFloat f))"

text \<open>Line 93, the dict comprehension: the first value that raises ends it.\<close>

fun shorten_all :: "(pystr \<times> json) list \<Rightarrow> exn + (pystr \<times> json) list" where
  "shorten_all [] = Inr []"
| "shorten_all (kv # kvs) =
     (case shorten (snd kv) of
        Inl e \<Rightarrow> Inl e
      | Inr v \<Rightarrow> (case shorten_all kvs of Inl e \<Rightarrow> Inl e | Inr r \<Rightarrow> Inr ((fst kv, v) # r)))"

text \<open>Lines 109 to 112: the parsed body, or the text when parsing raises.\<close>

definition response_data :: "response \<Rightarrow> json" where
  "response_data r = (case body_json r of Some j \<Rightarrow> j | None \<Rightarrow> JString (text_body r))"

text \<open>Lines 115 to 121.\<close>

definition success_reply :: "world \<Rightarrow> response \<Rightarrow> json \<times> int" where
  "success_reply w r =
     (JObject
        [(lit ''success'', JBool True),
         (lit ''status_code'', JInt (status_code r)),
         (lit ''data'', response_data r),
         (lit ''headers'', JObject (map (\<lambda>kv. (fst kv, JString (snd kv))) (resp_headers r))),
         (lit ''timestamp'', JString (now_iso w))],
      200)"

definition failure :: "pystr \<Rightarrow> string \<Rightarrow> json" where
  "failure error_msg error_type =
     JObject [(lit ''error'', JString error_msg),
              (lit ''success'', JBool False),
              (lit ''error_type'', JString (lit error_type))]"

text \<open>Lines 123 to 166: the \<open>except\<close> clauses, tried in the order they are written. Each
  gives the reply and the line it logs.\<close>

definition except_clauses :: "exn \<Rightarrow> (json \<times> int) \<times> log_record" where
  "except_clauses e =
     (if isinstance e Timeout then
        (let error_msg = lit ''Request timeout - the API took too long to respond''
         in ((failure error_msg ''timeout'', 408), Error_message error_msg))
      else if isinstance e ConnectionError then
        (let error_msg = lit ''Connection error - unable to reach the target API''
         in ((failure error_msg ''connection'', 503), Error_message error_msg))
      else if isinstance e SSLError then
        (let error_msg = lit ''SSL certificate verification failed''
         in ((failure error_msg ''ssl'', 495), Error_message error_msg))
      else if isinstance e HTTPError then
        (let error_msg = lit ''HTTP error occurred: '' @ msg e
         in ((failure error_msg ''http'', 500), Error_message error_msg))
      else
        (let error_msg = lit ''Unexpected error: '' @ msg e
         in ((failure error_msg ''unexpected'', 500), Error_traceback e)))"

definition raised :: "exn \<Rightarrow> log_record list \<Rightarrow> outbound list \<Rightarrow> run" where
  "raised e lg cs =
     \<lparr>reply = fst (except_clauses e), logged = lg @ [snd (except_clauses e)], calls = cs\<rparr>"

definition returned :: "json \<times> int \<Rightarrow> log_record list \<Rightarrow> outbound list \<Rightarrow> run" where
  "returned r lg cs = \<lparr>reply = r, logged = lg, calls = cs\<rparr>"

text \<open>Lines 63 to 66 and 75 to 78: the two replies with status 400.\<close>

definition no_data_reply :: "json \<times> int" where
  "no_data_reply =
     (JObject [(lit ''error'', JString (lit ''No request data provided'')),
               (lit ''success'', JBool False)], 400)"

definition no_url_reply :: "json \<times> int" where
  "no_url_reply =
     (JObject [(lit ''error'', JString (lit ''No target URL provided'')),
               (lit ''success'', JBool False)], 400)"

text \<open>Lines 80 to 121, once \<open>url\<close>, \<open>config\<close> (a dict, or \<open>config.get('url')\<close> had raised)
  and \<open>request_body\<close> are known.\<close>

definition relay :: "world \<Rightarrow> json \<Rightarrow> (pystr \<times> json) list \<Rightarrow> json \<Rightarrow> run" where
  "relay w target config request_body =
     (let hs = remove_empty (header_dict w config);
          lg1 = [Info_request_to target]
      in case shorten_all hs of
           Inl e \<Rightarrow> raised e lg1 []
         | Inr shown \<Rightarrow>
             (let lg3 = lg1 @ [Info_headers shown, Info_body request_body];
                  call = \<lparr>url = target, headers = hs, json_body = request_body,
                          timeout = 30, verify = True\<rparr>
              in case post w call of
                   Inl e \<Rightarrow> raised e lg3 [call]
                 | Inr r \<Rightarrow>
                     returned (success_reply w r)
                       (lg3 @ [Info_response_status (status_code r)]) [call]))"

text \<open>Lines 55 to 166. \<open>data.get\<close> and \<open>config.get\<close> raise AttributeError on a value that is
  not a dict.\<close>

definition proxy_api_request :: "world \<Rightarrow> request \<Rightarrow> run" where
  "proxy_api_request w rq =
     (if request_method rq = OPTIONS then
        returned (JObject [(lit ''status'', JString (lit ''ok''))], 200) [] []
      else
        case get_json rq of
          Inl e \<Rightarrow> raised e [] []
        | Inr data \<Rightarrow>
            if \<not> truthy data then returned no_data_reply [] []
            else
              (case data of
                 JObject d \<Rightarrow>
                   (let config = dget d ''config'' (JObject []);
                        request_body = dget d ''body'' (JObject [])
                    in case config of
                         JObject c \<Rightarrow>
                           (let target = dget c ''url'' JNull
                            in if \<not> truthy target then returned no_url_reply [] []
                               else relay w target c request_body)
                       | _ \<Rightarrow> raised (no_attribute config ''get'') [] [])
               | _ \<Rightarrow> raised (no_attribute data ''get'') [] []))"

text \<open>Reading a reply: a field of the JSON body, and the HTTP status.\<close>

definition field :: "run \<Rightarrow> string \<Rightarrow> json option" where
  "field r k = (case fst (reply r) of JObject kvs \<Rightarrow> map_of kvs (lit k) | _ \<Rightarrow> None)"

definition http_status :: "run \<Rightarrow> int" where
  "http_status r = snd (reply r)"

section \<open>Example inputs\<close>

text \<open>Concrete worlds and requests, on which the theorems below are instantiated.\<close>

definition answering :: "response \<Rightarrow> pystr \<Rightarrow> world" where
  "answering r t = \<lparr>post = (\<lambda>c. Inr r), now_iso = t, py_str = (\<lambda>v. [])\<rparr>"

definition raising :: "exn \<Rightarrow> world" where
  "raising e = \<lparr>post = (\<lambda>c. Inl e), now_iso = [], py_str = (\<lambda>v. [])\<rparr>"

definition not_found_page :: response where
  "not_found_page =
     \<lparr>status_code = 404, text_body = lit ''<h1>Not Found</h1>'', body_json = None,
      resp_headers = [(lit ''Content-Type'', lit ''text/html'')]\<rparr>"

definition payload :: "(pystr \<times> json) list \<Rightarrow> (pystr \<times> json) list" where
  "payload config =
     [(lit ''config'', JObject config),
      (lit ''body'', JObject [(lit ''feature'', JString (lit ''RF''))])]"

definition posting :: "json \<Rightarrow> request" where
  "posting data = \<lparr>request_method = POST, get_json = Inr data\<rparr>"

definition full_config :: "(pystr \<times> json) list" where
  "full_config =
     [(lit ''url'', JString (lit ''https://api.example.com/items'')),
      (lit ''contentType'', JString []),
      (lit ''apiKey'', JString (lit ''abcdefghijklmnopqrstuvwxyz'')),
      (lit ''authToken'', JString (lit ''xyz''))]"

definition bare_config :: "(pystr \<times> json) list" where
  "bare_config =
     [(lit ''url'', JString (lit ''https://api.example.com/items'')),
      (lit ''apiKey'', JString [])]"

definition no_url_config :: "(pystr \<times> json) list" where
  "no_url_config = [(lit ''apiKey'', JString (lit ''k''))]"

text \<open>The runs of the view function on them.\<close>

definition full_run :: run where
  "full_run = proxy_api_request (answering not_found_page []) (posting (JObject (payload full_config)))"

definition bare_run :: run where
  "bare_run = proxy_api_request (answering not_found_page []) (posting (JObject (payload bare_config)))"

definition later_run :: run where
  "later_run =
     proxy_api_request (answering not_found_page (lit ''2024-05-01T12:00:07''))
       (posting (JObject (payload bare_config)))"

definition no_url_run :: run where
  "no_url_run = proxy_api_request (answering not_found_page []) (posting (JObject (payload no_url_config)))"

definition read_timeout_run :: run where
  "read_timeout_run =
     proxy_api_request (raising (Exn ReadTimeout (lit ''Read timed out. (read timeout=30)'')))
       (posting (JObject (payload bare_config)))"

definition expired_certificate_run :: run where
  "expired_certificate_run =
     proxy_api_request (raising (Exn SSLError (lit ''certificate verify failed'')))
       (posting (JObject (payload bare_config)))"

definition array_run :: run where
  "array_run = proxy_api_request (answering not_found_page []) (posting (JArray [JInt 1]))"

definition empty_object_run :: run where
  "empty_object_run = proxy_api_request (answering not_found_page []) (posting (JObject []))"

section \<open>Basic facts\<close>

lemma lit_eq_iff [simp]: "lit a = lit b \<longleftrightarrow> a = b"
  unfolding lit_def by (simp add: inj_of_char)

lemma lit_empty_iff [simp]: "lit s = [] \<longleftrightarrow> s = []" "[] = lit s \<longleftrightarrow> s = []"
  by (auto simp: lit_def)

lemma issubclass_simps:
  "issubclass c Timeout \<longleftrightarrow> c \<in> {Timeout, ConnectTimeout, ReadTimeout}"
  "issubclass c ConnectionError \<longleftrightarrow> c \<in> {ConnectionError, ConnectTimeout, SSLError, ProxyError}"
  "issubclass c SSLError \<longleftrightarrow> c = SSLError"
  "issubclass c HTTPError \<longleftrightarrow> c = HTTPError"
  by (cases c; simp add: issubclass_def numeral_3_eq_3)+

text \<open>The \<open>except\<close> clauses by class: which clause answers.\<close>

lemma except_clauses_reply:
  "fst (except_clauses e) =
     (if cls e \<in> {Timeout, ConnectTimeout, ReadTimeout} then
        (failure (lit ''Request timeout - the API took too long to respond'') ''timeout'', 408)
      else if cls e \<in> {ConnectionError, SSLError, ProxyError} then
        (failure (lit ''Connection error - unable to reach the target API'') ''connection'', 503)
      else if cls e = HTTPError then
        (failure (lit ''HTTP error occurred: '' @ msg e) ''http'', 500)
      else (failure (lit ''Unexpected error: '' @ msg e) ''unexpected'', 500))"
  by (simp add: except_clauses_def isinstance_def issubclass_simps Let_def)

lemma except_clauses_not_400: "snd (fst (except_clauses e)) \<noteq> 400"
  by (simp add: except_clauses_reply)

lemma no_attribute_unexpected:
  "fst (except_clauses (no_attribute v a)) =
     (failure (lit ''Unexpected error: '' @ msg (no_attribute v a)) ''unexpected'', 500)"
  by (simp add: except_clauses_reply no_attribute_def)

lemma calls_raised [simp]: "calls (raised e lg cs) = cs"
  and logged_raised [simp]: "logged (raised e lg cs) = lg @ [snd (except_clauses e)]"
  and reply_raised [simp]: "reply (raised e lg cs) = fst (except_clauses e)"
  by (simp_all add: raised_def)

lemma calls_returned [simp]: "calls (returned r lg cs) = cs"
  and logged_returned [simp]: "logged (returned r lg cs) = lg"
  and reply_returned [simp]: "reply (returned r lg cs) = r"
  by (simp_all add: returned_def)

subsection \<open>The outbound call\<close>

text \<open>A run issues a call only through \<open>relay\<close>, after the log line of the headers was
  built; the call carries the filtered headers, the 30 second timeout and \<open>verify=True\<close>,
  and it is the only call of the run.\<close>

lemma relay_calls:
  assumes "c \<in> set (calls (relay w t cfg b))"
  shows "url c = t \<and> headers c = remove_empty (header_dict w cfg) \<and> json_body c = b \<and>
         timeout c = 30 \<and> verify c \<and> calls (relay w t cfg b) = [c] \<and>
         (\<exists>shown. shorten_all (headers c) = Inr shown \<and>
            relay w t cfg b =
              (case post w c of
                 Inl e \<Rightarrow> raised e [Info_request_to t, Info_headers shown, Info_body b] [c]
               | Inr r \<Rightarrow> returned (success_reply w r)
                   [Info_request_to t, Info_headers shown, Info_body b,
                    Info_response_status (status_code r)] [c]))"
  using assms by (auto simp: relay_def Let_def split: sum.splits)

lemma proxy_calls:
  assumes "c \<in> set (calls (proxy_api_request w rq))"
  shows "\<exists>d cfg. request_method rq = POST \<and> get_json rq = Inr (JObject d) \<and>
           dget d ''config'' (JObject []) = JObject cfg \<and>
           truthy (dget cfg ''url'' JNull) \<and>
           proxy_api_request w rq = relay w (dget cfg ''url'' JNull) cfg (dget d ''body'' (JObject []))"
  using assms
  by (cases "request_method rq")
     (auto simp: proxy_api_request_def Let_def split: if_splits sum.splits json.splits)

lemma proxy_outcome:
  assumes "c \<in> set (calls (proxy_api_request w rq))"
  shows "\<exists>shown. shorten_all (headers c) = Inr shown \<and>
           proxy_api_request w rq =
             (case post w c of
                Inl e \<Rightarrow> raised e [Info_request_to (url c), Info_headers shown, Info_body (json_body c)] [c]
              | Inr r \<Rightarrow> returned (success_reply w r)
                  [Info_request_to (url c), Info_headers shown, Info_body (json_body c),
                   Info_response_status (status_code r)] [c])"
proof -
  from proxy_calls [OF assms] obtain d cfg where
    eq: "proxy_api_request w rq = relay w (dget cfg ''url'' JNull) cfg (dget d ''body'' (JObject []))"
    by blast
  from assms have "c \<in> set (calls (relay w (dget cfg ''url'' JNull) cfg (dget d ''body'' (JObject []))))"
    by (simp add: eq)
  from relay_calls [OF this] obtain shown where
    u: "url c = dget cfg ''url'' JNull" and j: "json_body c = dget d ''body'' (JObject [])"
    and s: "shorten_all (headers c) = Inr shown"
    and r: "relay w (dget cfg ''url'' JNull) cfg (dget d ''body'' (JObject [])) =
              (case post w c of
                 Inl e \<Rightarrow> raised e [Info_request_to (dget cfg ''url'' JNull), Info_headers shown,
                                     Info_body (dget d ''body'' (JObject []))] [c]
               | Inr r \<Rightarrow> returned (success_reply w r)
                   [Info_request_to (dget cfg ''url'' JNull), Info_headers shown,
                    Info_body (dget d ''body'' (JObject [])),
                    Info_response_status (status_code r)] [c])"
    by blast
  show ?thesis
    unfolding eq u j using s r by blast
qed

lemma proxy_headers:
  assumes "c \<in> set (calls (proxy_api_request w rq))"
    and "get_json rq = Inr (JObject d)"
    and "dget d ''config'' (JObject []) = JObject cfg"
  shows "headers c = remove_empty (header_dict w cfg)"
proof -
  from proxy_calls [OF assms(1)] assms(2,3) have
    eq: "proxy_api_request w rq = relay w (dget cfg ''url'' JNull) cfg (dget d ''body'' (JObject []))"
    by auto
  from assms(1) have "c \<in> set (calls (relay w (dget cfg ''url'' JNull) cfg (dget d ''body'' (JObject []))))"
    by (simp add: eq)
  from relay_calls [OF this] show ?thesis by simp
qed

text \<open>One attempt per run, always with certificate verification and the 30 second
  timeout: no path of the function issues a second, unverified call.\<close>

lemma single_verified_call:
  assumes "c \<in> set (calls (proxy_api_request w rq))"
  shows "calls (proxy_api_request w rq) = [c] \<and> verify c \<and> timeout c = 30"
proof -
  from proxy_calls [OF assms] obtain d cfg where
    eq: "proxy_api_request w rq = relay w (dget cfg ''url'' JNull) cfg (dget d ''body'' (JObject []))"
    by blast
  from assms have "c \<in> set (calls (relay w (dget cfg ''url'' JNull) cfg (dget d ''body'' (JObject []))))"
    by (simp add: eq)
  from relay_calls [OF this] show ?thesis
    unfolding eq by simp
qed

lemma relay_not_400: "snd (reply (relay w tg cfg b)) \<noteq> 400"
  by (simp add: relay_def Let_def except_clauses_not_400 success_reply_def split: sum.splits)

subsection \<open>Headers\<close>

lemma map_of_remove_empty:
  "distinct (map fst hs) \<Longrightarrow>
   map_of (remove_empty hs) k =
     (case map_of hs k of None \<Rightarrow> None | Some v \<Rightarrow> if truthy v then Some v else None)"
proof (induction hs)
  case Nil
  then show ?case by (simp add: remove_empty_def)
next
  case (Cons h hs)
  then have "fst h \<notin> fst ` set hs" by simp
  then have "map_of hs (fst h) = None" by (simp add: map_of_eq_None_iff)
  with Cons show ?case
    by (cases h) (auto simp: remove_empty_def split: option.splits)
qed

lemma distinct_header_dict: "distinct (map fst (header_dict w cfg))"
  by (simp add: header_dict_def)

lemma header_lookup:
  "map_of (remove_empty (header_dict w cfg)) k =
     (case map_of (header_dict w cfg) k of None \<Rightarrow> None | Some v \<Rightarrow> if truthy v then Some v else None)"
  by (rule map_of_remove_empty) (rule distinct_header_dict)

lemma distinct_remove_empty: "distinct (map fst hs) \<Longrightarrow> distinct (map fst (remove_empty hs))"
  by (simp add: remove_empty_def distinct_map_filter)

lemma set_remove_empty: "kv \<in> set (remove_empty hs) \<longleftrightarrow> kv \<in> set hs \<and> truthy (snd kv)"
  by (auto simp: remove_empty_def)

lemma shorten_all_strings:
  "shorten_all hs = Inr shown \<Longrightarrow>
     map fst shown = map fst hs \<and>
     (\<forall>k s. (k, JString s) \<in> set hs \<longrightarrow>
        (k, JString (if length s > 20 then take 20 s @ lit ''...'' else s)) \<in> set shown)"
proof (induction hs arbitrary: shown)
  case Nil
  then show ?case by simp
next
  case (Cons h hs)
  then show ?case
    by (cases h) (fastforce split: sum.splits)
qed

subsection \<open>The clock\<close>

text \<open>The time of the run reaches the reply in the \<open>timestamp\<close> field only.\<close>

lemma world_eqI:
  "post w1 = post w2 \<Longrightarrow> py_str w1 = py_str w2 \<Longrightarrow> (w1::world) = w2\<lparr>now_iso := now_iso w1\<rparr>"
  by (cases w1, cases w2) simp

lemma str_of_clock: "str_of (w\<lparr>now_iso := t\<rparr>) v = str_of w v"
  by (simp add: str_of_def split: json.splits)

lemma header_dict_clock: "header_dict (w\<lparr>now_iso := t\<rparr>) cfg = header_dict w cfg"
  by (simp add: header_dict_def str_of_clock)

lemma success_reply_clock:
  "snd (success_reply (w\<lparr>now_iso := t\<rparr>) r) = snd (success_reply w r)"
  "k \<noteq> ''timestamp'' \<Longrightarrow>
     (case fst (success_reply (w\<lparr>now_iso := t\<rparr>) r) of JObject kvs \<Rightarrow> map_of kvs (lit k) | _ \<Rightarrow> None) =
     (case fst (success_reply w r) of JObject kvs \<Rightarrow> map_of kvs (lit k) | _ \<Rightarrow> None)"
  by (simp_all add: success_reply_def)

lemma relay_clock:
  "k \<noteq> ''timestamp'' \<Longrightarrow> field (relay (w\<lparr>now_iso := t\<rparr>) tg cfg b) k = field (relay w tg cfg b) k"
  by (simp add: relay_def Let_def header_dict_clock field_def success_reply_clock
      split: sum.splits)

lemma proxy_clock:
  "k \<noteq> ''timestamp'' \<Longrightarrow>
     field (proxy_api_request (w\<lparr>now_iso := t\<rparr>) rq) k = field (proxy_api_request w rq) k"
  by (simp add: proxy_api_request_def Let_def relay_clock split: sum.splits json.splits)

subsection \<open>Evaluating the example runs\<close>

lemmas run_defs =
  proxy_api_request_def relay_def header_dict_def remove_empty_def dget_def str_of_def
  raised_def returned_def except_clauses_def isinstance_def issubclass_simps
  success_reply_def response_data_def failure_def no_data_reply_def no_url_reply_def
  field_def http_status_def Let_def

lemmas example_defs =
  answering_def raising_def not_found_page_def payload_def posting_def
  full_config_def bare_config_def no_url_config_def

section \<open>The claims\<close>

subsection \<open>C1: a failed certificate verification\<close>

text \<open>
  C1 says that a run whose outbound call fails TLS certificate verification answers with
  \<open>error_type\<close> "ssl" and status 495. \<open>requests.exceptions.SSLError\<close> is a subclass of
  \<open>requests.exceptions.ConnectionError\<close>, and the clause for \<open>ConnectionError\<close> stands
  before the clause for \<open>SSLError\<close>: the earlier clause answers, with \<open>error_type\<close>
  "connection" and status 503, and the clause written for this case is never reached.
  The theorem evaluates the run in which \<open>requests.post\<close> raises \<open>SSLError\<close>.
\<close>

theorem tls_failure_answered_as_connection:
  "field expired_certificate_run ''error_type'' = Some (JString (lit ''connection''))
   \<and> http_status expired_certificate_run = 503
   \<and> field expired_certificate_run ''success'' = Some (JBool False)"
  by (simp add: expired_certificate_run_def run_defs example_defs)

subsection \<open>C2: a payload without a target URL\<close>

text \<open>
  C2 as stated, at the payload \<open>{"config": {"apiKey": "k"}, "body": {"feature": "RF"}}\<close>:
  the reply has status 400 and \<open>success: false\<close> and no call is issued, but it carries no
  \<open>error_type\<close> field, so the four parts of C2 do not hold together.
\<close>

theorem missing_url_without_error_type:
  "\<not> (field no_url_run ''success'' = Some (JBool False)
      \<and> field no_url_run ''error_type'' = Some (JString (lit ''validation''))
      \<and> http_status no_url_run = 400
      \<and> calls no_url_run = [])"
  by (simp add: no_url_run_def run_defs example_defs)

text \<open>
  C2, amended: for every POST whose payload is a JSON object in which \<open>config\<close> is absent
  or is an object, and in that object \<open>url\<close> is absent or the empty string, the reply has
  status 400, \<open>success: false\<close> and no \<open>error_type\<close> field, its \<open>error\<close> is
  "No target URL provided" ("No request data provided" when the payload is the empty
  object), and no outbound call is issued.
\<close>

theorem missing_url_rejected:
  assumes "request_method rq = POST"
    and "get_json rq = Inr (JObject d)"
    and "dget d ''config'' (JObject []) = JObject cfg"
    and "map_of cfg (lit ''url'') = None \<or> map_of cfg (lit ''url'') = Some (JString [])"
  shows "http_status (proxy_api_request w rq) = 400
       \<and> field (proxy_api_request w rq) ''success'' = Some (JBool False)
       \<and> field (proxy_api_request w rq) ''error_type'' = None
       \<and> field (proxy_api_request w rq) ''error'' =
           Some (JString (lit (if d = [] then ''No request data provided''
                               else ''No target URL provided'')))
       \<and> calls (proxy_api_request w rq) = []"
proof -
  from assms(4) have "\<not> truthy (dget cfg ''url'' JNull)"
    by (auto simp: dget_def)
  with assms(1-3) show ?thesis
    by (simp add: proxy_api_request_def field_def http_status_def no_data_reply_def
        no_url_reply_def)
qed

theorem missing_url_rejected_witness:
  "request_method (posting (JObject (payload no_url_config))) = POST
   \<and> get_json (posting (JObject (payload no_url_config))) = Inr (JObject (payload no_url_config))
   \<and> dget (payload no_url_config) ''config'' (JObject []) = JObject no_url_config
   \<and> map_of no_url_config (lit ''url'') = None
   \<and> http_status no_url_run = 400
   \<and> field no_url_run ''success'' = Some (JBool False)
   \<and> field no_url_run ''error_type'' = None
   \<and> field no_url_run ''error'' = Some (JString (lit ''No target URL provided''))
   \<and> calls no_url_run = []"
proof -
  have m: "request_method (posting (JObject (payload no_url_config))) = POST"
    and g: "get_json (posting (JObject (payload no_url_config))) = Inr (JObject (payload no_url_config))"
    by (simp_all add: posting_def)
  have c: "dget (payload no_url_config) ''config'' (JObject []) = JObject no_url_config"
    by (simp add: dget_def payload_def)
  have u: "map_of no_url_config (lit ''url'') = None"
    by (simp add: no_url_config_def)
  have "map_of no_url_config (lit ''url'') = None
      \<or> map_of no_url_config (lit ''url'') = Some (JString [])"
    using u by simp
  from missing_url_rejected [OF m g c this, of "answering not_found_page []"] m g c u
  show ?thesis
    by (simp add: no_url_run_def payload_def)
qed

subsection \<open>C3: any response of the target is relayed as a success\<close>

text \<open>
  C3: whenever the run issues its outbound call and the target answers with a response,
  whatever its status code, the reply has HTTP status 200 and \<open>success: true\<close>, its
  \<open>status_code\<close> is the status code of the response, and its \<open>data\<close> is the parsed JSON
  body when the body is valid JSON, else the text of the body unchanged.
\<close>

theorem response_relayed:
  assumes "c \<in> set (calls (proxy_api_request w rq))"
    and "post w c = Inr r"
  shows "http_status (proxy_api_request w rq) = 200
       \<and> field (proxy_api_request w rq) ''success'' = Some (JBool True)
       \<and> field (proxy_api_request w rq) ''status_code'' = Some (JInt (status_code r))
       \<and> field (proxy_api_request w rq) ''data'' =
           Some (case body_json r of Some j \<Rightarrow> j | None \<Rightarrow> JString (text_body r))"
proof -
  from proxy_outcome [OF assms(1)] assms(2) obtain lg where
    "proxy_api_request w rq = returned (success_reply w r) lg [c]"
    by auto
  then show ?thesis
    by (simp add: field_def http_status_def success_reply_def response_data_def)
qed

theorem response_relayed_witness:
  "hd (calls bare_run) \<in> set (calls bare_run)
   \<and> post (answering not_found_page []) (hd (calls bare_run)) = Inr not_found_page
   \<and> http_status bare_run = 200
   \<and> field bare_run ''success'' = Some (JBool True)
   \<and> field bare_run ''status_code'' = Some (JInt 404)
   \<and> field bare_run ''data'' = Some (JString (lit ''<h1>Not Found</h1>''))"
proof -
  have h: "hd (calls bare_run) \<in> set (calls bare_run)"
    by (simp add: bare_run_def run_defs example_defs)
  have p: "post (answering not_found_page []) (hd (calls bare_run)) = Inr not_found_page"
    by (simp add: answering_def)
  from response_relayed [OF h [unfolded bare_run_def] p [unfolded bare_run_def]] h p
  show ?thesis
    by (simp add: bare_run_def not_found_page_def)
qed

subsection \<open>C4: defaults, and no empty header\<close>

text \<open>
  C4: in every outbound call, each of Content-Type, User-Agent and Accept-Encoding is
  resolved to the value of its field of \<open>config\<close>, or to its default ("application/json",
  "okhttp/4.11.0", "gzip,deflate,br") when the field is absent; a header is in the call if
  and only if its resolved value (an entry of the dict of line 81) is non-empty, that is
  true in Python's sense; no header of the call has the empty string as its value, and no
  header name occurs twice.
\<close>

theorem headers_resolved_and_filtered:
  assumes "c \<in> set (calls (proxy_api_request w rq))"
    and "get_json rq = Inr (JObject d)"
    and "dget d ''config'' (JObject []) = JObject cfg"
  shows "map_of (headers c) (lit ''Content-Type'') =
           (let v = dget cfg ''contentType'' (JString (lit ''application/json''))
            in if truthy v then Some v else None)
       \<and> map_of (headers c) (lit ''User-Agent'') =
           (let v = dget cfg ''userAgent'' (JString (lit ''okhttp/4.11.0''))
            in if truthy v then Some v else None)
       \<and> map_of (headers c) (lit ''Accept-Encoding'') =
           (let v = dget cfg ''acceptEncoding'' (JString (lit ''gzip,deflate,br''))
            in if truthy v then Some v else None)
       \<and> (\<forall>k v. (k, v) \<in> set (headers c) \<longleftrightarrow> (k, v) \<in> set (header_dict w cfg) \<and> truthy v)
       \<and> (\<forall>k. (k, JString []) \<notin> set (headers c))
       \<and> distinct (map fst (headers c))"
proof -
  have h: "headers c = remove_empty (header_dict w cfg)"
    using assms by (rule proxy_headers)
  have "map_of (headers c) (lit ''Content-Type'') =
           (let v = dget cfg ''contentType'' (JString (lit ''application/json''))
            in if truthy v then Some v else None)"
    unfolding h header_lookup by (simp add: header_dict_def)
  moreover have "map_of (headers c) (lit ''User-Agent'') =
           (let v = dget cfg ''userAgent'' (JString (lit ''okhttp/4.11.0''))
            in if truthy v then Some v else None)"
    unfolding h header_lookup by (simp add: header_dict_def)
  moreover have "map_of (headers c) (lit ''Accept-Encoding'') =
           (let v = dget cfg ''acceptEncoding'' (JString (lit ''gzip,deflate,br''))
            in if truthy v then Some v else None)"
    unfolding h header_lookup by (simp add: header_dict_def)
  moreover have "\<forall>k v. (k, v) \<in> set (headers c) \<longleftrightarrow> (k, v) \<in> set (header_dict w cfg) \<and> truthy v"
    unfolding h by (simp add: set_remove_empty)
  moreover have "\<forall>k. (k, JString []) \<notin> set (headers c)"
    unfolding h by (simp add: set_remove_empty)
  moreover have "distinct (map fst (headers c))"
    unfolding h by (rule distinct_remove_empty) (rule distinct_header_dict)
  ultimately show ?thesis by blast
qed

text \<open>In the example, \<open>contentType\<close> is the empty string and the other two fields are
  absent: Content-Type is dropped, the other two headers carry their defaults.\<close>

theorem headers_resolved_and_filtered_witness:
  "hd (calls full_run) \<in> set (calls full_run)
   \<and> get_json (posting (JObject (payload full_config))) = Inr (JObject (payload full_config))
   \<and> dget (payload full_config) ''config'' (JObject []) = JObject full_config
   \<and> map_of (headers (hd (calls full_run))) (lit ''Content-Type'') = None
   \<and> map_of (headers (hd (calls full_run))) (lit ''User-Agent'') = Some (JString (lit ''okhttp/4.11.0''))
   \<and> map_of (headers (hd (calls full_run))) (lit ''Accept-Encoding'') =
        Some (JString (lit ''gzip,deflate,br''))
   \<and> (lit ''Content-Type'', JString []) \<notin> set (headers (hd (calls full_run)))
   \<and> distinct (map fst (headers (hd (calls full_run))))"
proof -
  have h: "hd (calls full_run) \<in> set (calls full_run)"
    by (simp add: full_run_def run_defs example_defs)
  have g: "get_json (posting (JObject (payload full_config))) = Inr (JObject (payload full_config))"
    by (simp add: posting_def)
  have c: "dget (payload full_config) ''config'' (JObject []) = JObject full_config"
    by (simp add: dget_def payload_def)
  from headers_resolved_and_filtered [OF h [unfolded full_run_def] g c, folded full_run_def] h g c
  show ?thesis
    by (simp add: dget_def full_config_def)
qed

subsection \<open>C5: the Authorization header\<close>

text \<open>
  C5: in every outbound call, when \<open>authToken\<close> is a non-empty string the call has the
  header Authorization with the value "Bearer " followed by the token, and when
  \<open>authToken\<close> is absent or the empty string the call has no Authorization header at all.
  Header names are distinct, so the lookup gives the only value sent under the name.
\<close>

theorem authorization_header:
  assumes "c \<in> set (calls (proxy_api_request w rq))"
    and "get_json rq = Inr (JObject d)"
    and "dget d ''config'' (JObject []) = JObject cfg"
  shows "(\<forall>t. map_of cfg (lit ''authToken'') = Some (JString t) \<and> t \<noteq> [] \<longrightarrow>
            map_of (headers c) (lit ''Authorization'') = Some (JString (lit ''Bearer '' @ t)))
       \<and> (map_of cfg (lit ''authToken'') = None \<or> map_of cfg (lit ''authToken'') = Some (JString []) \<longrightarrow>
            map_of (headers c) (lit ''Authorization'') = None)
       \<and> distinct (map fst (headers c))"
proof -
  have h: "headers c = remove_empty (header_dict w cfg)"
    using assms by (rule proxy_headers)
  have "\<forall>t. map_of cfg (lit ''authToken'') = Some (JString t) \<and> t \<noteq> [] \<longrightarrow>
            map_of (headers c) (lit ''Authorization'') = Some (JString (lit ''Bearer '' @ t))"
    unfolding h header_lookup by (simp add: header_dict_def dget_def str_of_def)
  moreover have "map_of cfg (lit ''authToken'') = None \<or> map_of cfg (lit ''authToken'') = Some (JString []) \<longrightarrow>
            map_of (headers c) (lit ''Authorization'') = None"
    unfolding h header_lookup by (auto simp: header_dict_def dget_def)
  moreover have "distinct (map fst (headers c))"
    unfolding h by (rule distinct_remove_empty) (rule distinct_header_dict)
  ultimately show ?thesis by blast
qed

text \<open>With \<open>authToken: "xyz"\<close> the header is \<open>Bearer xyz\<close>; without the field there is no
  such header.\<close>

theorem authorization_header_witness:
  "hd (calls full_run) \<in> set (calls full_run)
   \<and> map_of full_config (lit ''authToken'') = Some (JString (lit ''xyz''))
   \<and> map_of (headers (hd (calls full_run))) (lit ''Authorization'') = Some (JString (lit ''Bearer xyz''))
   \<and> hd (calls bare_run) \<in> set (calls bare_run)
   \<and> map_of bare_config (lit ''authToken'') = None
   \<and> map_of (headers (hd (calls bare_run))) (lit ''Authorization'') = None"
proof -
  have h1: "hd (calls full_run) \<in> set (calls full_run)"
    by (simp add: full_run_def run_defs example_defs)
  have g1: "get_json (posting (JObject (payload full_config))) = Inr (JObject (payload full_config))"
    by (simp add: posting_def)
  have c1: "dget (payload full_config) ''config'' (JObject []) = JObject full_config"
    by (simp add: dget_def payload_def)
  have a1: "map_of full_config (lit ''authToken'') = Some (JString (lit ''xyz''))"
    by (simp add: full_config_def)
  have h2: "hd (calls bare_run) \<in> set (calls bare_run)"
    by (simp add: bare_run_def run_defs example_defs)
  have g2: "get_json (posting (JObject (payload bare_config))) = Inr (JObject (payload bare_config))"
    by (simp add: posting_def)
  have c2: "dget (payload bare_config) ''config'' (JObject []) = JObject bare_config"
    by (simp add: dget_def payload_def)
  have a2: "map_of bare_config (lit ''authToken'') = None"
    by (simp add: bare_config_def)
  from authorization_header [OF h1 [unfolded full_run_def] g1 c1, folded full_run_def]
    authorization_header [OF h2 [unfolded bare_run_def] g2 c2, folded bare_run_def]
    h1 a1 h2 a2
  show ?thesis
    by (simp add: lit_def)
qed

subsection \<open>C6: the failure replies\<close>

text \<open>
  C6: whenever the run issues its outbound call and the call raises instead of returning a
  response, the reply has \<open>success: false\<close>, carries neither \<open>data\<close> nor \<open>status_code\<close>,
  and its \<open>error_type\<close> and HTTP status are one of the pairs timeout and 408, connection
  and 503, http and 500, unexpected and 500.
\<close>

theorem failure_envelopes:
  assumes "c \<in> set (calls (proxy_api_request w rq))"
    and "post w c = Inl e"
  shows "field (proxy_api_request w rq) ''success'' = Some (JBool False)
       \<and> field (proxy_api_request w rq) ''data'' = None
       \<and> field (proxy_api_request w rq) ''status_code'' = None
       \<and> (field (proxy_api_request w rq) ''error_type'', http_status (proxy_api_request w rq)) \<in>
           {(Some (JString (lit ''timeout'')), 408),
            (Some (JString (lit ''connection'')), 503),
            (Some (JString (lit ''http'')), 500),
            (Some (JString (lit ''unexpected'')), 500)}"
proof -
  from proxy_outcome [OF assms(1)] assms(2) obtain lg where
    "proxy_api_request w rq = raised e lg [c]"
    by auto
  then have "reply (proxy_api_request w rq) = fst (except_clauses e)"
    by simp
  then show ?thesis
    by (simp add: field_def http_status_def except_clauses_reply failure_def)
qed

text \<open>A read timeout is answered with timeout and 408.\<close>

theorem failure_envelopes_witness:
  "hd (calls read_timeout_run) \<in> set (calls read_timeout_run)
   \<and> post (raising (Exn ReadTimeout (lit ''Read timed out. (read timeout=30)'')))
        (hd (calls read_timeout_run)) = Inl (Exn ReadTimeout (lit ''Read timed out. (read timeout=30)''))
   \<and> field read_timeout_run ''success'' = Some (JBool False)
   \<and> field read_timeout_run ''data'' = None
   \<and> field read_timeout_run ''status_code'' = None
   \<and> field read_timeout_run ''error_type'' = Some (JString (lit ''timeout''))
   \<and> http_status read_timeout_run = 408"
proof -
  have h: "hd (calls read_timeout_run) \<in> set (calls read_timeout_run)"
    by (simp add: read_timeout_run_def run_defs example_defs)
  have p: "post (raising (Exn ReadTimeout (lit ''Read timed out. (read timeout=30)'')))
        (hd (calls read_timeout_run)) = Inl (Exn ReadTimeout (lit ''Read timed out. (read timeout=30)''))"
    by (simp add: raising_def)
  have k: "field read_timeout_run ''error_type'' = Some (JString (lit ''timeout''))"
    by (simp add: read_timeout_run_def run_defs example_defs)
  from failure_envelopes [OF h [unfolded read_timeout_run_def] p [unfolded read_timeout_run_def],
      folded read_timeout_run_def] h p k
  show ?thesis
    by simp
qed

subsection \<open>C7: the headers in the log\<close>

text \<open>
  C7: whenever the run issues its outbound call, its first three log lines are the target,
  the headers and the body; the logged headers have the names of the headers sent, and for
  every header sent whose value is a string, the logged value is the string itself when it
  has at most 20 characters, and its first 20 characters followed by "..." when it is
  longer. The header sent is the entry of the header dict of line 81 as it stands:
  shortening reaches the log line only.
\<close>

theorem logged_headers_shortened:
  assumes "c \<in> set (calls (proxy_api_request w rq))"
    and "get_json rq = Inr (JObject d)"
    and "dget d ''config'' (JObject []) = JObject cfg"
  shows "\<exists>shown.
           take 3 (logged (proxy_api_request w rq)) =
             [Info_request_to (url c), Info_headers shown, Info_body (json_body c)]
         \<and> map fst shown = map fst (headers c)
         \<and> (\<forall>k s. (k, JString s) \<in> set (headers c) \<longrightarrow>
               (k, JString (if length s > 20 then take 20 s @ lit ''...'' else s)) \<in> set shown)
         \<and> (\<forall>k v. (k, v) \<in> set (headers c) \<longrightarrow> (k, v) \<in> set (header_dict w cfg))"
proof -
  from proxy_outcome [OF assms(1)] obtain shown where
    s: "shorten_all (headers c) = Inr shown"
    and r: "proxy_api_request w rq =
             (case post w c of
                Inl e \<Rightarrow> raised e [Info_request_to (url c), Info_headers shown, Info_body (json_body c)] [c]
              | Inr r \<Rightarrow> returned (success_reply w r)
                  [Info_request_to (url c), Info_headers shown, Info_body (json_body c),
                   Info_response_status (status_code r)] [c])"
    by blast
  have "take 3 (logged (proxy_api_request w rq)) =
          [Info_request_to (url c), Info_headers shown, Info_body (json_body c)]"
    unfolding r by (simp split: sum.splits)
  moreover note shorten_all_strings [OF s]
  moreover have "headers c = remove_empty (header_dict w cfg)"
    using assms by (rule proxy_headers)
  then have "\<forall>k v. (k, v) \<in> set (headers c) \<longrightarrow> (k, v) \<in> set (header_dict w cfg)"
    by (simp add: set_remove_empty)
  ultimately show ?thesis by blast
qed

text \<open>The 26 letters sent as x-api-key are logged as their first 20 and "...", and
  sent in full; the 10 characters of \<open>Bearer xyz\<close> are logged as they are.\<close>

theorem logged_headers_shortened_witness:
  "hd (calls full_run) \<in> set (calls full_run)
   \<and> (lit ''x-api-key'', JString (lit ''abcdefghijklmnopqrstuvwxyz'')) \<in> set (headers (hd (calls full_run)))
   \<and> (lit ''Authorization'', JString (lit ''Bearer xyz'')) \<in> set (headers (hd (calls full_run)))
   \<and> (\<exists>shown.
         take 3 (logged full_run) =
           [Info_request_to (url (hd (calls full_run))), Info_headers shown,
            Info_body (json_body (hd (calls full_run)))]
       \<and> (lit ''x-api-key'', JString (lit ''abcdefghijklmnopqrst...'')) \<in> set shown
       \<and> (lit ''Authorization'', JString (lit ''Bearer xyz'')) \<in> set shown)"
proof -
  have h: "hd (calls full_run) \<in> set (calls full_run)"
    by (simp add: full_run_def run_defs example_defs)
  have g: "get_json (posting (JObject (payload full_config))) = Inr (JObject (payload full_config))"
    by (simp add: posting_def)
  have c: "dget (payload full_config) ''config'' (JObject []) = JObject full_config"
    by (simp add: dget_def payload_def)
  have k: "(lit ''x-api-key'', JString (lit ''abcdefghijklmnopqrstuvwxyz'')) \<in> set (headers (hd (calls full_run)))"
    by (simp add: full_run_def run_defs example_defs)
  have a: "(lit ''Authorization'', JString (lit ''Bearer xyz'')) \<in> set (headers (hd (calls full_run)))"
    by (simp add: full_run_def run_defs example_defs lit_def)
  from logged_headers_shortened [OF h [unfolded full_run_def] g c, folded full_run_def]
  obtain shown where
    t: "take 3 (logged full_run) =
           [Info_request_to (url (hd (calls full_run))), Info_headers shown,
            Info_body (json_body (hd (calls full_run)))]"
    and s: "\<forall>k s. (k, JString s) \<in> set (headers (hd (calls full_run))) \<longrightarrow>
               (k, JString (if length s > 20 then take 20 s @ lit ''...'' else s)) \<in> set shown"
    by blast
  from s k have "(lit ''x-api-key'',
       JString (if length (lit ''abcdefghijklmnopqrstuvwxyz'') > 20
                then take 20 (lit ''abcdefghijklmnopqrstuvwxyz'') @ lit ''...''
                else lit ''abcdefghijklmnopqrstuvwxyz'')) \<in> set shown"
    by blast
  then have k': "(lit ''x-api-key'', JString (lit ''abcdefghijklmnopqrst...'')) \<in> set shown"
    by (simp add: lit_def)
  from s a have "(lit ''Authorization'',
       JString (if length (lit ''Bearer xyz'') > 20
                then take 20 (lit ''Bearer xyz'') @ lit ''...''
                else lit ''Bearer xyz'')) \<in> set shown"
    by blast
  then have a': "(lit ''Authorization'', JString (lit ''Bearer xyz'')) \<in> set shown"
    by (simp add: lit_def)
  from h k a t k' a' show ?thesis by blast
qed

subsection \<open>C8: the same call again\<close>

text \<open>
  C8: two runs on the same request, against a target that answers every call as before
  (the same \<open>post\<close>, the same \<open>str()\<close>), have the same \<open>data\<close> and the same \<open>status_code\<close>
  in their replies, whatever the clock shows at each of them.
\<close>

theorem data_and_status_repeatable:
  assumes "post w1 = post w2" and "py_str w1 = py_str w2"
  shows "field (proxy_api_request w1 rq) ''data'' = field (proxy_api_request w2 rq) ''data''
       \<and> field (proxy_api_request w1 rq) ''status_code'' = field (proxy_api_request w2 rq) ''status_code''"
proof -
  from assms have "w1 = w2\<lparr>now_iso := now_iso w1\<rparr>"
    by (rule world_eqI)
  then have "\<And>k. k \<noteq> ''timestamp'' \<Longrightarrow>
               field (proxy_api_request w1 rq) k = field (proxy_api_request w2 rq) k"
    using proxy_clock [where w = w2 and t = "now_iso w1" and rq = rq] by simp
  then show ?thesis by simp
qed

text \<open>Two runs seven seconds apart: the timestamps differ, \<open>data\<close> and \<open>status_code\<close>
  do not.\<close>

theorem data_and_status_repeatable_witness:
  "post (answering not_found_page []) = post (answering not_found_page (lit ''2024-05-01T12:00:07''))
   \<and> py_str (answering not_found_page []) = py_str (answering not_found_page (lit ''2024-05-01T12:00:07''))
   \<and> field bare_run ''data'' = field later_run ''data''
   \<and> field bare_run ''status_code'' = field later_run ''status_code''
   \<and> field bare_run ''status_code'' = Some (JInt 404)
   \<and> field bare_run ''timestamp'' \<noteq> field later_run ''timestamp''"
proof -
  have p: "post (answering not_found_page []) = post (answering not_found_page (lit ''2024-05-01T12:00:07''))"
    and s: "py_str (answering not_found_page []) = py_str (answering not_found_page (lit ''2024-05-01T12:00:07''))"
    by (simp_all add: answering_def)
  have c: "field bare_run ''status_code'' = Some (JInt 404)"
    by (simp add: bare_run_def run_defs example_defs)
  have t: "field bare_run ''timestamp'' \<noteq> field later_run ''timestamp''"
    by (simp add: bare_run_def later_run_def run_defs example_defs)
  from data_and_status_repeatable [OF p s, of "posting (JObject (payload bare_config))",
      folded bare_run_def later_run_def] p s c t
  show ?thesis by simp
qed

subsection \<open>C9: the API key header\<close>

text \<open>
  C9: in every outbound call, when \<open>apiKey\<close> is a non-empty string the call has the header
  x-api-key with that string as its value, and when \<open>apiKey\<close> is absent or the empty
  string the call has no x-api-key header.
\<close>

theorem api_key_header:
  assumes "c \<in> set (calls (proxy_api_request w rq))"
    and "get_json rq = Inr (JObject d)"
    and "dget d ''config'' (JObject []) = JObject cfg"
  shows "(\<forall>k. map_of cfg (lit ''apiKey'') = Some (JString k) \<and> k \<noteq> [] \<longrightarrow>
            map_of (headers c) (lit ''x-api-key'') = Some (JString k))
       \<and> (map_of cfg (lit ''apiKey'') = None \<or> map_of cfg (lit ''apiKey'') = Some (JString []) \<longrightarrow>
            map_of (headers c) (lit ''x-api-key'') = None)
       \<and> distinct (map fst (headers c))"
proof -
  have h: "headers c = remove_empty (header_dict w cfg)"
    using assms by (rule proxy_headers)
  have "\<forall>k. map_of cfg (lit ''apiKey'') = Some (JString k) \<and> k \<noteq> [] \<longrightarrow>
            map_of (headers c) (lit ''x-api-key'') = Some (JString k)"
    unfolding h header_lookup by (simp add: header_dict_def dget_def)
  moreover have "map_of cfg (lit ''apiKey'') = None \<or> map_of cfg (lit ''apiKey'') = Some (JString []) \<longrightarrow>
            map_of (headers c) (lit ''x-api-key'') = None"
    unfolding h header_lookup by (auto simp: header_dict_def dget_def)
  moreover have "distinct (map fst (headers c))"
    unfolding h by (rule distinct_remove_empty) (rule distinct_header_dict)
  ultimately show ?thesis by blast
qed

text \<open>A key of 26 letters is sent under x-api-key; the empty key is not sent.\<close>

theorem api_key_header_witness:
  "hd (calls full_run) \<in> set (calls full_run)
   \<and> map_of full_config (lit ''apiKey'') = Some (JString (lit ''abcdefghijklmnopqrstuvwxyz''))
   \<and> map_of (headers (hd (calls full_run))) (lit ''x-api-key'') =
        Some (JString (lit ''abcdefghijklmnopqrstuvwxyz''))
   \<and> hd (calls bare_run) \<in> set (calls bare_run)
   \<and> map_of bare_config (lit ''apiKey'') = Some (JString [])
   \<and> map_of (headers (hd (calls bare_run))) (lit ''x-api-key'') = None"
proof -
  have h1: "hd (calls full_run) \<in> set (calls full_run)"
    by (simp add: full_run_def run_defs example_defs)
  have g1: "get_json (posting (JObject (payload full_config))) = Inr (JObject (payload full_config))"
    by (simp add: posting_def)
  have c1: "dget (payload full_config) ''config'' (JObject []) = JObject full_config"
    by (simp add: dget_def payload_def)
  have a1: "map_of full_config (lit ''apiKey'') = Some (JString (lit ''abcdefghijklmnopqrstuvwxyz''))"
    by (simp add: full_config_def)
  have h2: "hd (calls bare_run) \<in> set (calls bare_run)"
    by (simp add: bare_run_def run_defs example_defs)
  have g2: "get_json (posting (JObject (payload bare_config))) = Inr (JObject (payload bare_config))"
    by (simp add: posting_def)
  have c2: "dget (payload bare_config) ''config'' (JObject []) = JObject bare_config"
    by (simp add: dget_def payload_def)
  have a2: "map_of bare_config (lit ''apiKey'') = Some (JString [])"
    by (simp add: bare_config_def)
  from api_key_header [OF h1 [unfolded full_run_def] g1 c1, folded full_run_def]
    api_key_header [OF h2 [unfolded bare_run_def] g2 c2, folded bare_run_def]
    h1 a1 h2 a2
  show ?thesis
    by simp
qed

subsection \<open>C10: a payload that is not an object\<close>

text \<open>
  C10: for a POST whose payload parses to a value that is true in Python's sense and is
  not an object, the reply has \<open>success: false\<close>, \<open>error_type\<close> "unexpected" and status
  500, and no call is issued; and the reply is the one of the missing payload ("No request
  data provided", status 400) exactly when the parsed payload is false in Python's sense.
\<close>

theorem non_object_payload_unexpected:
  assumes "request_method rq = POST" and "get_json rq = Inr data"
  shows "(truthy data \<and> (\<forall>d. data \<noteq> JObject d) \<longrightarrow>
            http_status (proxy_api_request w rq) = 500
          \<and> field (proxy_api_request w rq) ''success'' = Some (JBool False)
          \<and> field (proxy_api_request w rq) ''error_type'' = Some (JString (lit ''unexpected''))
          \<and> calls (proxy_api_request w rq) = [])
       \<and> (reply (proxy_api_request w rq) = no_data_reply \<longleftrightarrow> \<not> truthy data)"
proof -
  have a: "http_status (proxy_api_request w rq) = 500
          \<and> field (proxy_api_request w rq) ''success'' = Some (JBool False)
          \<and> field (proxy_api_request w rq) ''error_type'' = Some (JString (lit ''unexpected''))
          \<and> calls (proxy_api_request w rq) = []"
    if "truthy data" and "\<forall>d. data \<noteq> JObject d"
  proof -
    from that assms have "proxy_api_request w rq = raised (no_attribute data ''get'') [] []"
      by (cases data) (simp_all add: proxy_api_request_def)
    then show ?thesis
      by (simp add: http_status_def field_def no_attribute_unexpected failure_def)
  qed
  have b: "reply (proxy_api_request w rq) = no_data_reply" if "\<not> truthy data"
    using that assms by (simp add: proxy_api_request_def)
  have c: "reply (proxy_api_request w rq) \<noteq> no_data_reply" if "truthy data"
  proof (cases "\<exists>d. data = JObject d")
    case False
    with a that have "snd (reply (proxy_api_request w rq)) = 500"
      by (simp add: http_status_def)
    then show ?thesis by (auto simp: no_data_reply_def)
  next
    case True
    then obtain d where d: "data = JObject d" by blast
    show ?thesis
    proof (cases "\<exists>cfg. dget d ''config'' (JObject []) = JObject cfg")
      case False
      with d that assms
      have "proxy_api_request w rq = raised (no_attribute (dget d ''config'' (JObject [])) ''get'') [] []"
        by (cases "dget d ''config'' (JObject [])") (simp_all add: proxy_api_request_def)
      then have "snd (reply (proxy_api_request w rq)) = 500"
        by (simp add: no_attribute_unexpected)
      then show ?thesis by (auto simp: no_data_reply_def)
    next
      case True
      then obtain cfg where cfg: "dget d ''config'' (JObject []) = JObject cfg" by blast
      show ?thesis
      proof (cases "truthy (dget cfg ''url'' JNull)")
        case False
        with d cfg that assms have "reply (proxy_api_request w rq) = no_url_reply"
          by (simp add: proxy_api_request_def)
        then show ?thesis by (simp add: no_url_reply_def no_data_reply_def)
      next
        case True
        with d cfg that assms
        have "proxy_api_request w rq = relay w (dget cfg ''url'' JNull) cfg (dget d ''body'' (JObject []))"
          by (simp add: proxy_api_request_def)
        with relay_not_400 [of w "dget cfg ''url'' JNull" cfg "dget d ''body'' (JObject [])"]
        show ?thesis by (auto simp: no_data_reply_def)
      qed
    qed
  qed
  from a b c show ?thesis by blast
qed

text \<open>The payload \<open>[1]\<close> is answered 500 unexpected; the payload \<open>{}\<close> is answered with
  the reply of the missing payload.\<close>

theorem non_object_payload_unexpected_witness:
  "request_method (posting (JArray [JInt 1])) = POST
   \<and> get_json (posting (JArray [JInt 1])) = Inr (JArray [JInt 1])
   \<and> truthy (JArray [JInt 1])
   \<and> http_status array_run = 500
   \<and> field array_run ''success'' = Some (JBool False)
   \<and> field array_run ''error_type'' = Some (JString (lit ''unexpected''))
   \<and> calls array_run = []
   \<and> reply array_run \<noteq> no_data_reply
   \<and> \<not> truthy (JObject [])
   \<and> reply empty_object_run = no_data_reply"
proof -
  have m1: "request_method (posting (JArray [JInt 1])) = POST"
    and g1: "get_json (posting (JArray [JInt 1])) = Inr (JArray [JInt 1])"
    and m2: "request_method (posting (JObject [])) = POST"
    and g2: "get_json (posting (JObject [])) = Inr (JObject [])"
    by (simp_all add: posting_def)
  from non_object_payload_unexpected [OF m1 g1, of "answering not_found_page []", folded array_run_def]
    non_object_payload_unexpected [OF m2 g2, of "answering not_found_page []", folded empty_object_run_def]
    m1 g1
  show ?thesis by simp
qed

end
